theory Spec2Isabelle
  imports Complex_Main
begin

section \<open>Go values\<close>

text \<open>
  A Go \<open>string\<close> is a sequence of bytes, modelled by \<^typ>\<open>string\<close> (a list of 8-bit
  characters); \<open>len\<close> is \<^const>\<open>length\<close>. A \<open>float64\<close> is modelled by a real number:
  the arithmetic of the model is exact, so rounding, overflow, infinities and NaN are
  outside of it. An \<open>error\<close> is modelled by its message; a \<open>nil\<close> error is \<^const>\<open>None\<close>.
  The calls to the logger write to an external collaborator and return nothing the
  computation reads; they are left out.
\<close>

type_synonym float64 = real
type_synonym error = string

subsection \<open>Library functions used by the code\<close>

text \<open>
  \<open>strings.ReplaceAll(s, old, new)\<close> for a non-empty \<open>old\<close>: the non-overlapping
  occurrences of \<open>old\<close> are replaced from left to right. Both call sites pass a
  one-byte \<open>old\<close>; the empty pattern is not modelled (the string is returned unchanged).
\<close>

fun ReplaceAll :: "string \<Rightarrow> string \<Rightarrow> string \<Rightarrow> string" where
  "ReplaceAll [] old new = []"
| "ReplaceAll (c # cs) old new =
     (if old \<noteq> [] \<and> take (length old) (c # cs) = old
      then new @ ReplaceAll (drop (length old - 1) cs) old new
      else c # ReplaceAll cs old new)"

text \<open>
  The \<open>range\<close> loop over a string decodes UTF-8: each iteration yields one rune and
  advances by its width. A byte that does not start a well-formed encoding yields
  \<open>utf8.RuneError\<close> (U+FFFD) and advances by one byte. \<open>decodeRune\<close> returns the rune
  and its width, with the acceptance ranges of \<open>unicode/utf8\<close> (no overlong forms, no
  surrogates, nothing above U+10FFFF).
\<close>

definition RuneError :: nat where
  "RuneError = 0xFFFD"

definition cont :: "nat \<Rightarrow> bool" where
  "cont b = (0x80 \<le> b \<and> b \<le> 0xBF)"

definition decodeRune :: "nat list \<Rightarrow> nat \<times> nat" where
  "decodeRune s =
     (case s of
        [] \<Rightarrow> (RuneError, 0)
      | b0 # bs \<Rightarrow>
         if b0 < 0x80 then (b0, 1)
         else if 0xC2 \<le> b0 \<and> b0 \<le> 0xDF then
           (case bs of
              b1 # _ \<Rightarrow>
                if cont b1 then ((b0 - 0xC0) * 64 + (b1 - 0x80), 2) else (RuneError, 1)
            | _ \<Rightarrow> (RuneError, 1))
         else if 0xE0 \<le> b0 \<and> b0 \<le> 0xEF then
           (case bs of
              b1 # b2 # _ \<Rightarrow>
                if (if b0 = 0xE0 then 0xA0 else 0x80) \<le> b1
                   \<and> b1 \<le> (if b0 = 0xED then 0x9F else 0xBF) \<and> cont b2
                then ((b0 - 0xE0) * 4096 + (b1 - 0x80) * 64 + (b2 - 0x80), 3)
                else (RuneError, 1)
            | _ \<Rightarrow> (RuneError, 1))
         else if 0xF0 \<le> b0 \<and> b0 \<le> 0xF4 then
           (case bs of
              b1 # b2 # b3 # _ \<Rightarrow>
                if (if b0 = 0xF0 then 0x90 else 0x80) \<le> b1
                   \<and> b1 \<le> (if b0 = 0xF4 then 0x8F else 0xBF) \<and> cont b2 \<and> cont b3
                then ((b0 - 0xF0) * 262144 + (b1 - 0x80) * 4096 + (b2 - 0x80) * 64
                      + (b3 - 0x80), 4)
                else (RuneError, 1)
            | _ \<Rightarrow> (RuneError, 1))
         else (RuneError, 1))"

fun runesOf :: "nat list \<Rightarrow> nat list" where
  "runesOf [] = []"
| "runesOf (b # bs) = fst (decodeRune (b # bs)) # runesOf (drop (snd (decodeRune (b # bs)) - 1) bs)"

definition runes :: "string \<Rightarrow> nat list" where
  "runes s = runesOf (map of_char s)"

text \<open>
  \<open>unicode.IsDigit\<close>: below U+0100 only the ASCII digits; above, membership in the
  range table \<open>unicode.Digit\<close> (general category Nd of Unicode 15.0, the version of the
  Go release the build uses).
\<close>

definition Digit :: "(nat \<times> nat) list" where
  "Digit = [(0x660, 0x669), (0x6F0, 0x6F9), (0x7C0, 0x7C9), (0x966, 0x96F), (0x9E6, 0x9EF),
    (0xA66, 0xA6F), (0xAE6, 0xAEF), (0xB66, 0xB6F), (0xBE6, 0xBEF), (0xC66, 0xC6F),
    (0xCE6, 0xCEF), (0xD66, 0xD6F), (0xDE6, 0xDEF), (0xE50, 0xE59), (0xED0, 0xED9),
    (0xF20, 0xF29), (0x1040, 0x1049), (0x1090, 0x1099), (0x17E0, 0x17E9), (0x1810, 0x1819),
    (0x1946, 0x194F), (0x19D0, 0x19D9), (0x1A80, 0x1A89), (0x1A90, 0x1A99), (0x1B50, 0x1B59),
    (0x1BB0, 0x1BB9), (0x1C40, 0x1C49), (0x1C50, 0x1C59), (0xA620, 0xA629), (0xA8D0, 0xA8D9),
    (0xA900, 0xA909), (0xA9D0, 0xA9D9), (0xA9F0, 0xA9F9), (0xAA50, 0xAA59), (0xABF0, 0xABF9),
    (0xFF10, 0xFF19), (0x104A0, 0x104A9), (0x10D30, 0x10D39), (0x11066, 0x1106F),
    (0x110F0, 0x110F9), (0x11136, 0x1113F), (0x111D0, 0x111D9), (0x112F0, 0x112F9),
    (0x11450, 0x11459), (0x114D0, 0x114D9), (0x11650, 0x11659), (0x116C0, 0x116C9),
    (0x11730, 0x11739), (0x118E0, 0x118E9), (0x11950, 0x11959), (0x11C50, 0x11C59),
    (0x11D50, 0x11D59), (0x11DA0, 0x11DA9), (0x11F50, 0x11F59), (0x16A60, 0x16A69),
    (0x16AC0, 0x16AC9), (0x16B50, 0x16B59), (0x1D7CE, 0x1D7FF), (0x1E140, 0x1E149),
    (0x1E2F0, 0x1E2F9), (0x1E4F0, 0x1E4F9), (0x1E950, 0x1E959), (0x1FBF0, 0x1FBF9)]"

definition IsDigit :: "nat \<Rightarrow> bool" where
  "IsDigit r =
     (if r \<le> 0xFF then 0x30 \<le> r \<and> r \<le> 0x39
      else list_ex (\<lambda>(lo, hi). lo \<le> r \<and> r \<le> hi) Digit)"





definition roundHalfEven :: "real \<Rightarrow> int" where
  "roundHalfEven x =
     (let f = \<lfloor>x\<rfloor>; d = x - of_int f
      in if d < 1 / 2 then f else if 1 / 2 < d then f + 1 else if even f then f else f + 1)"


section \<open>Package validator\<close>



definition zipcodeLength :: nat where
  "zipcodeLength = 8"

definition minZipcodeLength :: nat where
  "minZipcodeLength = 4"

text \<open>The loop over the runes of the normalized zipcode, returning at the first non-digit.\<close>

fun digitLoop :: "string \<Rightarrow> nat list \<Rightarrow> error option" where
  "digitLoop fieldName [] = None"
| "digitLoop fieldName (char # rest) =
     (if \<not> IsDigit char
      then Some (fieldName @ '' must be a valid zipcode format (4-8 digits)'')
      else digitLoop fieldName rest)"

definition ValidateZipcode :: "string \<Rightarrow> string \<Rightarrow> error option" where
  "ValidateZipcode zipcode fieldName =
     (if zipcode = [] then Some (fieldName @ '' is required'')
      else
        let normalized = ReplaceAll (ReplaceAll zipcode ''-'' []) '' '' []
        in if length normalized < minZipcodeLength \<or> length normalized > zipcodeLength
           then Some (fieldName @ '' must be a valid zipcode format (4-8 digits)'')
           else digitLoop fieldName (runes normalized))"





section \<open>Package service\<close>

text \<open>
  Modelled from the spec: the structs of package \<open>model\<close>, whose declarations are not
  among the sources. The field names are those the service reads and writes; the types
  are those of the data model (postal codes and texts are strings, costs, weight and
  dimensions are numbers, the day count is an integer, the flag is a boolean).
\<close>






definition baseCostCents :: float64 where
  "baseCostCents = 1000"








text \<open>
  \<open>strconv.ParseFloat(s, 64)\<close>, as far as the code reads it: \<^const>\<open>None\<close> when it
  returns an error, the parsed value otherwise. The empty string is a syntax error. On a
  non-empty string of ASCII digits the value is the decimal number, and the error is a
  range error when that number rounds to infinity (from \<open>2^1024 - 2^970\<close> on). What it
  returns on every other string (signs, fractions, exponents, hexadecimal forms, syntax
  errors) is the parameter \<open>rest\<close>. The few strings it parses to an infinity or a NaN
  (\<open>inf\<close>, \<open>infinity\<close>, \<open>nan\<close>) have no value in the model.
\<close>

definition asciiDigit :: "char \<Rightarrow> bool" where
  "asciiDigit c = (0x30 \<le> (of_char c :: nat) \<and> (of_char c :: nat) \<le> 0x39)"

definition digitsValue :: "string \<Rightarrow> nat" where
  "digitsValue s = foldl (\<lambda>acc c. acc * 10 + (of_char c - 0x30)) 0 s"

definition ParseFloat :: "(string \<Rightarrow> float64 option) \<Rightarrow> string \<Rightarrow> float64 option" where
  "ParseFloat rest s =
     (if s = [] then None
      else if list_all asciiDigit s
      then (if real (digitsValue s) < 2 ^ 1024 - 2 ^ 970 then Some (real (digitsValue s)) else None)
      else rest s)"

definition calculateBaseCost :: "(string \<Rightarrow> float64 option) \<Rightarrow> string \<Rightarrow> string \<Rightarrow> float64" where
  "calculateBaseCost rest originZipcode destinationZipcode =
     (let originNormalized = ReplaceAll (ReplaceAll originZipcode ''-'' []) '' '' [];
          destNormalized = ReplaceAll (ReplaceAll destinationZipcode ''-'' []) '' '' []
      in case ParseFloat rest originNormalized of
           None \<Rightarrow> baseCostCents
         | Some originNum \<Rightarrow>
            (case ParseFloat rest destNormalized of
               None \<Rightarrow> baseCostCents
             | Some destNum \<Rightarrow>
                (let distance0 = originNum - destNum;
                     distance = (if distance0 < 0 then - distance0 else distance0)
                 in if distance < 1000 then baseCostCents
                    else (let distanceFactor = 1 + distance / 10000
                          in baseCostCents * distanceFactor))))"






section \<open>Predicates of the statements\<close>


section \<open>Facts about the library functions\<close>

lemma ReplaceAll_byte: "ReplaceAll s [c] [] = filter (\<lambda>x. x \<noteq> c) s"
  by (induction s) auto

lemma normalized_filter:
  "ReplaceAll (ReplaceAll s ''-'' []) '' '' [] = filter (\<lambda>c. c \<noteq> CHR ''-'' \<and> c \<noteq> CHR '' '') s"
  by (simp add: ReplaceAll_byte conj_commute)





lemma roundHalfEven_near: "\<bar>real_of_int (roundHalfEven x) - x\<bar> \<le> 1 / 2"
proof -
  have "real_of_int \<lfloor>x\<rfloor> \<le> x" "x < real_of_int \<lfloor>x\<rfloor> + 1" by linarith+
  then show ?thesis
    by (auto simp: roundHalfEven_def Let_def)
qed



section \<open>Package validator: the zipcode\<close>

lemma digitLoop_all:
  "digitLoop f rs =
     (if list_all IsDigit rs then None
      else Some (f @ '' must be a valid zipcode format (4-8 digits)''))"
  by (induction rs) auto

lemma runesOf_ascii:
  "list_all (\<lambda>b. b < 0x80) bs \<Longrightarrow> runesOf bs = bs"
  by (induction bs) (simp_all add: decodeRune_def)

lemma asciiDigit_IsDigit: "asciiDigit c \<Longrightarrow> IsDigit (of_char c)"
  by (simp add: asciiDigit_def IsDigit_def)

lemma runes_asciiDigits:
  assumes "list_all asciiDigit s"
  shows "runes s = map of_char s" and "list_all IsDigit (runes s)"
proof -
  have "list_all (\<lambda>b. b < 0x80) (map of_char s :: nat list)"
    using assms by (induction s) (auto simp: asciiDigit_def)
  then show r: "runes s = map of_char s"
    by (simp add: runes_def runesOf_ascii)
  show "list_all IsDigit (runes s)"
    unfolding r using assms by (induction s) (auto simp: asciiDigit_IsDigit)
qed


lemma ValidateZipcode_messages:
  "ValidateZipcode [] f = Some (f @ '' is required'')"
  "z \<noteq> [] \<Longrightarrow> ValidateZipcode z f \<noteq> None \<Longrightarrow>
     ValidateZipcode z f = Some (f @ '' must be a valid zipcode format (4-8 digits)'')"
  by (auto simp: ValidateZipcode_def normalized_filter Let_def digitLoop_all split: if_splits)


text \<open>
  C5. \<open>ValidateZipcode\<close> is meant to accept exactly the strings that, without their
  hyphens and spaces, are 4 to 8 ASCII digits. It accepts them (lemma
  \<open>ValidateZipcode_ascii_digits\<close>), but it also accepts the four bytes that encode the
  two Arabic-Indic digits U+0661 U+0662: the length check counts bytes, and the scan
  asks \<open>unicode.IsDigit\<close> of each rune, which holds of every Unicode decimal digit.
\<close>

theorem ValidateZipcode_two_arabic_indic_digits:
  "ValidateZipcode [CHR 0xD9, CHR 0xA1, CHR 0xD9, CHR 0xA2] ''origin_zipcode'' = None
   \<and> runes [CHR 0xD9, CHR 0xA1, CHR 0xD9, CHR 0xA2] = [0x661, 0x662]
   \<and> \<not> list_all asciiDigit [CHR 0xD9, CHR 0xA1, CHR 0xD9, CHR 0xA2]"
  by (simp add: ValidateZipcode_def runes_def decodeRune_def cont_def IsDigit_def Digit_def
      minZipcodeLength_def zipcodeLength_def asciiDigit_def)

section \<open>Package validator: dimensions and volume\<close>




section \<open>Package service: the cost breakdown\<close>



section \<open>Package service: the base cost\<close>

lemma calculateBaseCost_unfold:
  "calculateBaseCost rest origin dest =
     (case ParseFloat rest (filter (\<lambda>c. c \<noteq> CHR ''-'' \<and> c \<noteq> CHR '' '') origin) of
        None \<Rightarrow> 1000
      | Some a \<Rightarrow>
         (case ParseFloat rest (filter (\<lambda>c. c \<noteq> CHR ''-'' \<and> c \<noteq> CHR '' '') dest) of
            None \<Rightarrow> 1000
          | Some b \<Rightarrow> if \<bar>a - b\<bar> < 1000 then 1000 else 1000 * (1 + \<bar>a - b\<bar> / 10000)))"
  by (simp add: calculateBaseCost_def normalized_filter Let_def baseCostCents_def abs_if
      split: option.splits)

lemma calculateBaseCost_lower: "1000 \<le> calculateBaseCost rest origin dest"
  by (simp add: calculateBaseCost_unfold split: option.splits)




text \<open>
  C10. When the normalized forms of both zipcodes consist only of decimal digits (the
  digits of the validator's scan, which include the ASCII digits; so for every pair that
  passes \<open>ValidateZipcode\<close>, by \<open>ValidateZipcode_None_iff\<close>), the base cost is at least
  1000: the distance factor never lowers it.
\<close>

theorem calculateBaseCost_at_least_base:
  assumes "list_all IsDigit (runes (filter (\<lambda>c. c \<noteq> CHR ''-'' \<and> c \<noteq> CHR '' '') origin))"
    and "list_all IsDigit (runes (filter (\<lambda>c. c \<noteq> CHR ''-'' \<and> c \<noteq> CHR '' '') dest))"
  shows "1000 \<le> calculateBaseCost rest origin dest"
  by (rule calculateBaseCost_lower)


theorem calculateBaseCost_at_least_base_witness:
  "list_all IsDigit (runes (filter (\<lambda>c. c \<noteq> CHR ''-'' \<and> c \<noteq> CHR '' '') ''01000-000''))
   \<and> list_all IsDigit (runes (filter (\<lambda>c. c \<noteq> CHR ''-'' \<and> c \<noteq> CHR '' '') ''1428''))
   \<and> 1000 \<le> calculateBaseCost (\<lambda>s. None) ''01000-000'' ''1428''"
proof -
  have o: "list_all IsDigit (runes (filter (\<lambda>c. c \<noteq> CHR ''-'' \<and> c \<noteq> CHR '' '') ''01000-000''))"
    by (rule runes_asciiDigits(2)) (simp add: asciiDigit_def)
  have d: "list_all IsDigit (runes (filter (\<lambda>c. c \<noteq> CHR ''-'' \<and> c \<noteq> CHR '' '') ''1428''))"
    by (rule runes_asciiDigits(2)) (simp add: asciiDigit_def)
  show ?thesis
    using o d calculateBaseCost_at_least_base [OF o d, of "\<lambda>s. None"] by simp
qed

section \<open>Package service: the response\<close>


















section \<open>Package service: validation order\<close>



end
